theory Spec2Isabelle
  imports Main
begin

section \<open>Values of the host language\<close>

text \<open>
  The file \<^verbatim>\<open>src/vs/workbench/common/resources.ts\<close> is compiled without strict null
  checks: a value of the TypeScript type \<open>T\<close> is a \<open>T\<close>, \<^verbatim>\<open>undefined\<close> or \<^verbatim>\<open>null\<close>.
  The two absent values are kept apart, because \<^verbatim>\<open>value && e\<close> hands on the very value
  that was falsy.
\<close>

datatype 'a nullable = Undefined | Null | Val 'a

fun is_absent :: "'a nullable \<Rightarrow> bool" where
  "is_absent Undefined = True"
| "is_absent Null = True"
| "is_absent (Val x) = False"

text \<open>\<^verbatim>\<open>!!value\<close> for an object reference: every object is truthy, the absent values are not.\<close>

fun truthy_object :: "'a nullable \<Rightarrow> bool" where
  "truthy_object (Val x) = True"
| "truthy_object Undefined = False"
| "truthy_object Null = False"

text \<open>Truthiness of a boolean and of a string (the empty string is falsy).\<close>

fun truthy_boolean :: "bool nullable \<Rightarrow> bool" where
  "truthy_boolean (Val b) = b"
| "truthy_boolean Undefined = False"
| "truthy_boolean Null = False"

fun truthy_string :: "string nullable \<Rightarrow> bool" where
  "truthy_string (Val s) = (s \<noteq> [])"
| "truthy_string Undefined = False"
| "truthy_string Null = False"

text \<open>
  \<^verbatim>\<open>value && e\<close> where \<open>value\<close> is an object reference and \<open>e\<close> reads it: when \<open>value\<close> is
  absent the result is \<open>value\<close> itself and \<open>e\<close> is not evaluated.
\<close>

fun and_then :: "'a nullable \<Rightarrow> ('a \<Rightarrow> 'b nullable) \<Rightarrow> 'b nullable" where
  "and_then (Val x) e = e x"
| "and_then Undefined e = Undefined"
| "and_then Null e = Null"

text \<open>\<^verbatim>\<open>a || b\<close> for a boolean-or-absent \<open>a\<close> and a boolean \<open>b\<close>.\<close>

definition or_else :: "bool nullable \<Rightarrow> bool \<Rightarrow> bool nullable" where
  "or_else a b = (if truthy_boolean a then a else Val b)"

text \<open>\<^verbatim>\<open>a === s\<close> for a string-or-absent \<open>a\<close> and a string literal \<open>s\<close>.\<close>

definition strict_equals :: "string nullable \<Rightarrow> string \<Rightarrow> bool" where
  "strict_equals a s = (a = Val s)"

section \<open>Resources\<close>

text \<open>
  The class \<open>URI\<close> of \<^verbatim>\<open>vs/base/common/uri\<close> is imported, not defined, by the file. Of a URI
  the file reads \<open>scheme\<close> and \<open>fsPath\<close> (the file-system style path, in \<open>set\<close>) and \<open>path\<close>
  (in \<open>parseMetaData\<close>); the record has these three components.
\<close>

record URI =
  scheme :: string
  path :: string
  fsPath :: string

text \<open>\<open>Schemas.untitled\<close> of \<^verbatim>\<open>vs/base/common/network\<close>.\<close>

definition Schemas_untitled :: string where
  "Schemas_untitled = ''untitled''"

section \<open>Context keys\<close>

text \<open>
  Modelled from the spec: \<open>RawContextKey\<close> and \<open>IContextKey\<close> of
  \<^verbatim>\<open>vs/platform/contextkey/common/contextkey\<close> are not part of the file. The spec gives a
  fact descriptor a name and a default value, and a bound fact the operations
  \<open>set(value)\<close>, \<open>reset()\<close> (back to the declared default) and \<open>get()\<close>. A bound fact
  also counts the writes made to it (\<open>writes\<close>), so that "no write" can be told from
  "a write of the value already stored".
\<close>

record 'a RawContextKey =
  rawKey :: string
  rawDefaultValue :: "'a nullable"

record 'a IContextKey =
  key :: string
  defaultValue :: "'a nullable"
  stored :: "'a nullable"
  writes :: nat

definition bindTo :: "'a RawContextKey \<Rightarrow> 'a IContextKey" where
  "bindTo raw = \<lparr>key = rawKey raw, defaultValue = rawDefaultValue raw,
     stored = rawDefaultValue raw, writes = 0\<rparr>"

definition IContextKey_set :: "'a nullable \<Rightarrow> 'a IContextKey \<Rightarrow> 'a IContextKey" where
  "IContextKey_set v k = k\<lparr>stored := v, writes := Suc (writes k)\<rparr>"

definition IContextKey_reset :: "'a IContextKey \<Rightarrow> 'a IContextKey" where
  "IContextKey_reset k = k\<lparr>stored := defaultValue k, writes := Suc (writes k)\<rparr>"

definition IContextKey_get :: "'a IContextKey \<Rightarrow> 'a nullable" where
  "IContextKey_get k = stored k"

subsection \<open>The eight static descriptors (lines 16 to 23)\<close>

definition Scheme :: "string RawContextKey" where
  "Scheme = \<lparr>rawKey = ''resourceScheme'', rawDefaultValue = Undefined\<rparr>"

definition Filename :: "string RawContextKey" where
  "Filename = \<lparr>rawKey = ''resourceFilename'', rawDefaultValue = Undefined\<rparr>"

definition LangId :: "string RawContextKey" where
  "LangId = \<lparr>rawKey = ''resourceLangId'', rawDefaultValue = Undefined\<rparr>"

definition Resource :: "URI RawContextKey" where
  "Resource = \<lparr>rawKey = ''resource'', rawDefaultValue = Undefined\<rparr>"

definition Extension :: "string RawContextKey" where
  "Extension = \<lparr>rawKey = ''resourceExtname'', rawDefaultValue = Undefined\<rparr>"

definition HasResource :: "bool RawContextKey" where
  "HasResource = \<lparr>rawKey = ''resourceSet'', rawDefaultValue = Val False\<rparr>"

definition IsFileSystemResource :: "bool RawContextKey" where
  "IsFileSystemResource = \<lparr>rawKey = ''isFileSystemResource'', rawDefaultValue = Val False\<rparr>"

definition IsFileSystemResourceOrUntitled :: "bool RawContextKey" where
  "IsFileSystemResourceOrUntitled =
     \<lparr>rawKey = ''isFileSystemResourceOrUntitled'', rawDefaultValue = Val False\<rparr>"

section \<open>The injected collaborators\<close>

text \<open>
  The file service, the mode service and the path utilities are imported, not defined,
  by the file; the operations take what they answer as parameters. The answer of
  \<open>canHandleResource\<close> changes when a provider registers, so it is passed to every
  operation anew. \<open>getModeIdByFilepathOrFirstLine\<close> may find no mode.
\<close>

record collaborators =
  fileService_canHandleResource :: "URI \<Rightarrow> bool"
  modeService_getModeIdByFilepathOrFirstLine :: "string \<Rightarrow> string nullable"
  paths_basename :: "string \<Rightarrow> string"
  paths_extname :: "string \<Rightarrow> string"

section \<open>The class \<open>ResourceContextKey\<close>\<close>

text \<open>
  The eight private fields of the class, and two more components:
  \<^item> \<open>listening\<close>: whether the listener that the constructor registers at
    \<open>onDidChangeFileSystemProviderRegistrations\<close> is still subscribed;
  \<^item> \<open>canHandleResource_calls\<close>: the arguments of the calls made to
    \<open>_fileService.canHandleResource\<close> so far, oldest first. Nothing reads it: it records
    whether the file service was consulted.
\<close>

record ResourceContextKey =
  resourceKey :: "URI IContextKey"
  schemeKey :: "string IContextKey"
  filenameKey :: "string IContextKey"
  langIdKey :: "string IContextKey"
  extensionKey :: "string IContextKey"
  hasResource :: "bool IContextKey"
  isfileSystemResource :: "bool IContextKey"
  isFileSystemResourceOrUntitled :: "bool IContextKey"
  listening :: bool
  canHandleResource_calls :: "URI list"

text \<open>
  \<^verbatim>\<open>value && _fileService.canHandleResource(value)\<close> (lines 52 and 64): the service is
  called only when \<open>value\<close> is a resource.
\<close>

fun and_canHandleResource ::
  "collaborators \<Rightarrow> URI nullable \<Rightarrow> ResourceContextKey \<Rightarrow> bool nullable \<times> ResourceContextKey" where
  "and_canHandleResource c (Val r) this =
     (Val (fileService_canHandleResource c r),
      this\<lparr>canHandleResource_calls := canHandleResource_calls this @ [r]\<rparr>)"
| "and_canHandleResource c Undefined this = (Undefined, this)"
| "and_canHandleResource c Null this = (Null, this)"

text \<open>
  The listener of lines 50 to 54, and line 65, end with the same statement:
  \<^verbatim>\<open>_isFileSystemResourceOrUntitled.set(_isfileSystemResource.get() || _schemeKey.get() === Schemas.untitled)\<close>.
\<close>

definition set_isFileSystemResourceOrUntitled :: "ResourceContextKey \<Rightarrow> ResourceContextKey" where
  "set_isFileSystemResourceOrUntitled this =
     this\<lparr>isFileSystemResourceOrUntitled :=
       IContextKey_set
         (or_else (IContextKey_get (isfileSystemResource this))
            (strict_equals (IContextKey_get (schemeKey this)) Schemas_untitled))
         (isFileSystemResourceOrUntitled this)\<rparr>"

text \<open>The listener registered by the constructor (lines 50 to 54).\<close>

definition onDidChangeFileSystemProviderRegistrations_listener ::
  "collaborators \<Rightarrow> ResourceContextKey \<Rightarrow> ResourceContextKey" where
  "onDidChangeFileSystemProviderRegistrations_listener c this =
     (let resource = IContextKey_get (resourceKey this);
          (answer, this) = and_canHandleResource c resource this;
          this = this\<lparr>isfileSystemResource := IContextKey_set answer (isfileSystemResource this)\<rparr>
      in set_isFileSystemResourceOrUntitled this)"

text \<open>The constructor (lines 34 to 55): the eight facts are bound, the listener is registered.\<close>

definition ResourceContextKey_constructor :: ResourceContextKey where
  "ResourceContextKey_constructor =
     \<lparr>resourceKey = bindTo Resource,
      schemeKey = bindTo Scheme,
      filenameKey = bindTo Filename,
      langIdKey = bindTo LangId,
      extensionKey = bindTo Extension,
      hasResource = bindTo HasResource,
      isfileSystemResource = bindTo IsFileSystemResource,
      isFileSystemResourceOrUntitled = bindTo IsFileSystemResourceOrUntitled,
      listening = True,
      canHandleResource_calls = []\<rparr>"

text \<open>\<open>set\<close> (lines 57 to 66).\<close>

definition ResourceContextKey_set ::
  "collaborators \<Rightarrow> URI nullable \<Rightarrow> ResourceContextKey \<Rightarrow> ResourceContextKey" where
  "ResourceContextKey_set c value this =
     (let this = this\<lparr>resourceKey := IContextKey_set value (resourceKey this)\<rparr>;
          this = this\<lparr>schemeKey :=
            IContextKey_set (and_then value (\<lambda>v. Val (scheme v))) (schemeKey this)\<rparr>;
          this = this\<lparr>filenameKey :=
            IContextKey_set (and_then value (\<lambda>v. Val (paths_basename c (fsPath v))))
              (filenameKey this)\<rparr>;
          this = this\<lparr>langIdKey :=
            IContextKey_set
              (and_then value (\<lambda>v. modeService_getModeIdByFilepathOrFirstLine c (fsPath v)))
              (langIdKey this)\<rparr>;
          this = this\<lparr>extensionKey :=
            IContextKey_set (and_then value (\<lambda>v. Val (paths_extname c (fsPath v))))
              (extensionKey this)\<rparr>;
          this = this\<lparr>hasResource := IContextKey_set (Val (truthy_object value)) (hasResource this)\<rparr>;
          (answer, this) = and_canHandleResource c value this;
          this = this\<lparr>isfileSystemResource := IContextKey_set answer (isfileSystemResource this)\<rparr>
      in set_isFileSystemResourceOrUntitled this)"

text \<open>
  \<open>reset\<close> (lines 68 to 75). The six statements reset five facts: \<open>_langIdKey\<close> is reset
  twice (lines 70 and 72), and \<open>_filenameKey\<close>, \<open>_isfileSystemResource\<close> and
  \<open>_isFileSystemResourceOrUntitled\<close> are not reset.
\<close>

definition ResourceContextKey_reset :: "ResourceContextKey \<Rightarrow> ResourceContextKey" where
  "ResourceContextKey_reset this =
     (let this = this\<lparr>schemeKey := IContextKey_reset (schemeKey this)\<rparr>;
          this = this\<lparr>langIdKey := IContextKey_reset (langIdKey this)\<rparr>;
          this = this\<lparr>resourceKey := IContextKey_reset (resourceKey this)\<rparr>;
          this = this\<lparr>langIdKey := IContextKey_reset (langIdKey this)\<rparr>;
          this = this\<lparr>extensionKey := IContextKey_reset (extensionKey this)\<rparr>;
          this = this\<lparr>hasResource := IContextKey_reset (hasResource this)\<rparr>
      in this)"

text \<open>\<open>get\<close> (lines 77 to 79).\<close>

definition ResourceContextKey_get :: "ResourceContextKey \<Rightarrow> URI nullable" where
  "ResourceContextKey_get this = IContextKey_get (resourceKey this)"

text \<open>
  Modelled from the spec: the class \<open>Disposable\<close> of \<^verbatim>\<open>vs/base/common/lifecycle\<close> and the
  event of the file service are not part of the file. By the spec, disposal cancels the
  subscription to the capability-change notification, and a notification reaches the
  listener of a subscription that has not been cancelled.
\<close>

definition dispose :: "ResourceContextKey \<Rightarrow> ResourceContextKey" where
  "dispose this = this\<lparr>listening := False\<rparr>"

definition fire_onDidChangeFileSystemProviderRegistrations ::
  "collaborators \<Rightarrow> ResourceContextKey \<Rightarrow> ResourceContextKey" where
  "fire_onDidChangeFileSystemProviderRegistrations c this =
     (if listening this then onDidChangeFileSystemProviderRegistrations_listener c this else this)"

text \<open>
  What can happen to an instance once it is constructed, and the state after a sequence
  of such events, oldest first.
\<close>

datatype operation =
    Set collaborators "URI nullable"
  | Reset
  | Notification collaborators
  | Dispose

fun perform :: "operation \<Rightarrow> ResourceContextKey \<Rightarrow> ResourceContextKey" where
  "perform (Set c value) this = ResourceContextKey_set c value this"
| "perform Reset this = ResourceContextKey_reset this"
| "perform (Notification c) this = fire_onDidChangeFileSystemProviderRegistrations c this"
| "perform Dispose this = dispose this"

definition run :: "operation list \<Rightarrow> ResourceContextKey" where
  "run operations = foldl (\<lambda>this operation. perform operation this)
     ResourceContextKey_constructor operations"

text \<open>
  Invariant I2 of the spec, on the stored facts: \<open>isFileSystemResourceOrUntitled\<close> is the
  disjunction of \<open>isFileSystemResource\<close> and \<open>scheme == "untitled"\<close>.
\<close>

definition I2 :: "ResourceContextKey \<Rightarrow> bool" where
  "I2 this =
     (IContextKey_get (isFileSystemResourceOrUntitled this) =
        Val (truthy_boolean (IContextKey_get (isfileSystemResource this)) \<or>
             IContextKey_get (schemeKey this) = Val ''untitled''))"

text \<open>Each of the eight facts holds the default value its descriptor declares.\<close>

definition at_declared_defaults :: "ResourceContextKey \<Rightarrow> bool" where
  "at_declared_defaults this =
     (IContextKey_get (resourceKey this) = rawDefaultValue Resource \<and>
      IContextKey_get (schemeKey this) = rawDefaultValue Scheme \<and>
      IContextKey_get (filenameKey this) = rawDefaultValue Filename \<and>
      IContextKey_get (langIdKey this) = rawDefaultValue LangId \<and>
      IContextKey_get (extensionKey this) = rawDefaultValue Extension \<and>
      IContextKey_get (hasResource this) = rawDefaultValue HasResource \<and>
      IContextKey_get (isfileSystemResource this) = rawDefaultValue IsFileSystemResource \<and>
      IContextKey_get (isFileSystemResourceOrUntitled this) =
        rawDefaultValue IsFileSystemResourceOrUntitled)"

section \<open>The namespace \<open>DataUri\<close>\<close>

subsection \<open>The string operations of the host language\<close>

text \<open>
  \<open>indexOf\<close> and \<open>lastIndexOf\<close> answer \<open>-1\<close> when the character does not occur.
\<close>

fun indexOf :: "string \<Rightarrow> char \<Rightarrow> int" where
  "indexOf [] c = - 1"
| "indexOf (x # xs) c =
     (if x = c then 0 else (let i = indexOf xs c in if i < 0 then - 1 else i + 1))"

fun lastIndexOf :: "string \<Rightarrow> char \<Rightarrow> int" where
  "lastIndexOf [] c = - 1"
| "lastIndexOf (x # xs) c =
     (let i = lastIndexOf xs c in if i < 0 then (if x = c then 0 else - 1) else i + 1)"

text \<open>
  \<open>substring(start, end)\<close>: both indices are clamped to \<open>0 .. length\<close>, and are swapped
  when the first is the greater.
\<close>

definition substring :: "string \<Rightarrow> int \<Rightarrow> int \<Rightarrow> string" where
  "substring s start end' =
     (let len = int (length s);
          finalStart = min (max start 0) len;
          finalEnd = min (max end' 0) len;
          from = min finalStart finalEnd;
          to = max finalStart finalEnd
      in take (nat (to - from)) (drop (nat from) s))"

text \<open>
  \<open>split(separator)\<close> for a separator of one character: the pieces between the
  occurrences, so one piece more than there are occurrences (the empty string splits
  into one empty piece).
\<close>

fun split :: "char \<Rightarrow> string \<Rightarrow> string list" where
  "split c [] = [[]]"
| "split c (x # xs) =
     (if x = c then [] # split c xs
      else (case split c xs of [] \<Rightarrow> [[x]] | piece # pieces \<Rightarrow> (x # piece) # pieces))"

text \<open>An array element read by a destructuring pattern: \<^verbatim>\<open>undefined\<close> past the end.\<close>

definition element :: "'a list \<Rightarrow> nat \<Rightarrow> 'a nullable" where
  "element xs i = (if i < length xs then Val (xs ! i) else Undefined)"

subsection \<open>\<open>parseMetaData\<close> (lines 92 to 113)\<close>

definition META_DATA_MIME :: string where
  "META_DATA_MIME = ''mime''"

text \<open>The body of the \<open>forEach\<close> callback (lines 98 to 103), on the map built so far.\<close>

definition forEach_property :: "(string \<rightharpoonup> string) \<Rightarrow> string \<Rightarrow> (string \<rightharpoonup> string)" where
  "forEach_property metadata property =
     (let pieces = split CHR '':'' property;
          key = element pieces 0;
          value = element pieces 1
      in if truthy_string key \<and> truthy_string value
         then (case (key, value) of
                 (Val k, Val v) \<Rightarrow> metadata(k \<mapsto> v)
               | _ \<Rightarrow> metadata)
         else metadata)"

definition parseMetaData :: "URI \<Rightarrow> (string \<rightharpoonup> string)" where
  "parseMetaData dataUri =
     (let metadata = Map.empty;
          meta = substring (path dataUri) (indexOf (path dataUri) CHR '';'' + 1)
                   (lastIndexOf (path dataUri) CHR '';'');
          metadata = foldl forEach_property metadata (split CHR '';'' meta);
          mime = substring (path dataUri) 0 (indexOf (path dataUri) CHR '';'')
      in if mime \<noteq> [] then metadata(META_DATA_MIME \<mapsto> mime) else metadata)"

subsection \<open>The algorithm of the spec, in the spec's words\<close>

text \<open>
  Step 1: the substring strictly between the first and the last \<open>;\<close> of the path (empty
  when the path has no \<open>;\<close>, or only one).
\<close>

definition before_first :: "char \<Rightarrow> string \<Rightarrow> string" where
  "before_first c s = takeWhile (\<lambda>x. x \<noteq> c) s"

definition after_first :: "char \<Rightarrow> string \<Rightarrow> string" where
  "after_first c s = tl (dropWhile (\<lambda>x. x \<noteq> c) s)"

definition before_last :: "char \<Rightarrow> string \<Rightarrow> string" where
  "before_last c s = rev (after_first c (rev s))"

definition between_first_and_last :: "char \<Rightarrow> string \<Rightarrow> string" where
  "between_first_and_last c s =
     (if c \<in> set s \<and> c \<in> set (after_first c s) then before_last c (after_first c s) else [])"

text \<open>
  Step 2, as the spec words it: a token is split once on \<open>:\<close>, into the key before the
  first \<open>:\<close> and the value after it; a token without \<open>:\<close> has no value.
\<close>

definition spec_token :: "(string \<rightharpoonup> string) \<Rightarrow> string \<Rightarrow> (string \<rightharpoonup> string)" where
  "spec_token metadata token =
     (if CHR '':'' \<in> set token \<and> before_first CHR '':'' token \<noteq> [] \<and>
         after_first CHR '':'' token \<noteq> []
      then metadata(before_first CHR '':'' token \<mapsto> after_first CHR '':'' token)
      else metadata)"

text \<open>
  Step 2 as the code has it: the value is what stands between the first and the second
  \<open>:\<close> of the token (up to the end of the token when there is no second \<open>:\<close>).
\<close>

definition amended_token :: "(string \<rightharpoonup> string) \<Rightarrow> string \<Rightarrow> (string \<rightharpoonup> string)" where
  "amended_token metadata token =
     (if CHR '':'' \<in> set token \<and> before_first CHR '':'' token \<noteq> [] \<and>
         before_first CHR '':'' (after_first CHR '':'' token) \<noteq> []
      then metadata(before_first CHR '':'' token \<mapsto>
             before_first CHR '':'' (after_first CHR '':'' token))
      else metadata)"

text \<open>
  A token with a missing key or a missing value: nothing stands before its first \<open>:\<close>,
  or nothing after it (so also when the token has no \<open>:\<close>).
\<close>

definition missing_key_or_value :: "string \<Rightarrow> bool" where
  "missing_key_or_value token =
     (before_first CHR '':'' token = [] \<or> after_first CHR '':'' token = [])"

text \<open>
  Step 3: the substring before the first \<open>;\<close> is the MIME type (a path without \<open>;\<close> has
  none); the three steps together, over either reading of step 2.
\<close>

definition spec_mime :: "string \<Rightarrow> string" where
  "spec_mime p = (if CHR '';'' \<in> set p then before_first CHR '';'' p else [])"

definition reference_algorithm ::
  "((string \<rightharpoonup> string) \<Rightarrow> string \<Rightarrow> (string \<rightharpoonup> string)) \<Rightarrow> string \<Rightarrow> (string \<rightharpoonup> string)" where
  "reference_algorithm token_step p =
     (let tokens = split CHR '';'' (between_first_and_last CHR '';'' p);
          metadata = foldl token_step Map.empty tokens
      in if spec_mime p \<noteq> [] then metadata(''mime'' \<mapsto> spec_mime p) else metadata)"

definition parseMetaData_spec :: "string \<Rightarrow> (string \<rightharpoonup> string)" where
  "parseMetaData_spec p = reference_algorithm spec_token p"

definition parseMetaData_amended :: "string \<Rightarrow> (string \<rightharpoonup> string)" where
  "parseMetaData_amended p = reference_algorithm amended_token p"

section \<open>Collaborators for the examples\<close>

text \<open>
  A file service that handles the scheme \<open>file\<close> only, a mode service that knows one
  mode, and path utilities for paths with \<open>/\<close> as the separator.
\<close>

definition example_basename :: "string \<Rightarrow> string" where
  "example_basename p = rev (takeWhile (\<lambda>x. x \<noteq> CHR ''/'') (rev p))"

definition example_extname :: "string \<Rightarrow> string" where
  "example_extname p =
     (let b = example_basename p
      in if CHR ''.'' \<in> set b then CHR ''.'' # rev (takeWhile (\<lambda>x. x \<noteq> CHR ''.'') (rev b)) else [])"

definition example_collaborators :: collaborators where
  "example_collaborators =
     \<lparr>fileService_canHandleResource = (\<lambda>r. scheme r = ''file''),
      modeService_getModeIdByFilepathOrFirstLine = (\<lambda>p. Val ''plaintext''),
      paths_basename = example_basename,
      paths_extname = example_extname\<rparr>"

definition example_file :: URI where
  "example_file = \<lparr>scheme = ''file'', path = ''/a/b.txt'', fsPath = ''/a/b.txt''\<rparr>"

definition example_untitled :: URI where
  "example_untitled = \<lparr>scheme = ''untitled'', path = ''Untitled-1'', fsPath = ''Untitled-1''\<rparr>"

definition example_data :: "string \<Rightarrow> URI" where
  "example_data p = \<lparr>scheme = ''data'', path = p, fsPath = p\<rparr>"

text \<open>
  A resource of a scheme whose provider registers late, and the collaborators once it
  has registered.
\<close>

definition example_memfs :: URI where
  "example_memfs = \<lparr>scheme = ''memfs'', path = ''/a/b.txt'', fsPath = ''/a/b.txt''\<rparr>"

definition example_collaborators_later :: collaborators where
  "example_collaborators_later =
     example_collaborators
       \<lparr>fileService_canHandleResource := (\<lambda>r. scheme r = ''file'' \<or> scheme r = ''memfs'')\<rparr>"

section \<open>Properties of \<open>ResourceContextKey\<close>\<close>

subsection \<open>The operations, statement by statement\<close>

lemmas key_simps = IContextKey_set_def IContextKey_reset_def IContextKey_get_def bindTo_def

lemmas descriptor_simps = Scheme_def Filename_def LangId_def Resource_def Extension_def
  HasResource_def IsFileSystemResource_def IsFileSystemResourceOrUntitled_def

lemmas operation_simps = ResourceContextKey_set_def ResourceContextKey_reset_def
  ResourceContextKey_get_def ResourceContextKey_constructor_def
  onDidChangeFileSystemProviderRegistrations_listener_def
  fire_onDidChangeFileSystemProviderRegistrations_def dispose_def
  set_isFileSystemResourceOrUntitled_def or_else_def strict_equals_def Schemas_untitled_def

lemmas example_simps = example_collaborators_def example_collaborators_later_def
  example_file_def example_untitled_def example_memfs_def example_data_def
  example_basename_def example_extname_def

text \<open>
  The eight facts have eight different names, so a write to one of them is not a write
  to another: each fact can keep its own value.
\<close>

lemma descriptor_names_distinct:
  "distinct [rawKey Scheme, rawKey Filename, rawKey LangId, rawKey Resource, rawKey Extension,
     rawKey HasResource, rawKey IsFileSystemResource, rawKey IsFileSystemResourceOrUntitled]"
  by (simp add: descriptor_simps)

lemma get_set [simp]: "IContextKey_get (IContextKey_set v k) = v"
  by (simp add: key_simps)

lemma set_Val:
  "ResourceContextKey_set c (Val R) this =
     this\<lparr>resourceKey := IContextKey_set (Val R) (resourceKey this),
          schemeKey := IContextKey_set (Val (scheme R)) (schemeKey this),
          filenameKey := IContextKey_set (Val (paths_basename c (fsPath R))) (filenameKey this),
          langIdKey :=
            IContextKey_set (modeService_getModeIdByFilepathOrFirstLine c (fsPath R))
              (langIdKey this),
          extensionKey := IContextKey_set (Val (paths_extname c (fsPath R))) (extensionKey this),
          hasResource := IContextKey_set (Val True) (hasResource this),
          isfileSystemResource :=
            IContextKey_set (Val (fileService_canHandleResource c R)) (isfileSystemResource this),
          isFileSystemResourceOrUntitled :=
            IContextKey_set (Val (fileService_canHandleResource c R \<or> scheme R = ''untitled''))
              (isFileSystemResourceOrUntitled this),
          canHandleResource_calls := canHandleResource_calls this @ [R]\<rparr>"
  by (simp add: operation_simps key_simps Let_def)

lemma set_Undefined:
  "ResourceContextKey_set c Undefined this =
     this\<lparr>resourceKey := IContextKey_set Undefined (resourceKey this),
          schemeKey := IContextKey_set Undefined (schemeKey this),
          filenameKey := IContextKey_set Undefined (filenameKey this),
          langIdKey := IContextKey_set Undefined (langIdKey this),
          extensionKey := IContextKey_set Undefined (extensionKey this),
          hasResource := IContextKey_set (Val False) (hasResource this),
          isfileSystemResource := IContextKey_set Undefined (isfileSystemResource this),
          isFileSystemResourceOrUntitled :=
            IContextKey_set (Val False) (isFileSystemResourceOrUntitled this)\<rparr>"
  by (simp add: operation_simps key_simps Let_def)

lemma set_Null:
  "ResourceContextKey_set c Null this =
     this\<lparr>resourceKey := IContextKey_set Null (resourceKey this),
          schemeKey := IContextKey_set Null (schemeKey this),
          filenameKey := IContextKey_set Null (filenameKey this),
          langIdKey := IContextKey_set Null (langIdKey this),
          extensionKey := IContextKey_set Null (extensionKey this),
          hasResource := IContextKey_set (Val False) (hasResource this),
          isfileSystemResource := IContextKey_set Null (isfileSystemResource this),
          isFileSystemResourceOrUntitled :=
            IContextKey_set (Val False) (isFileSystemResourceOrUntitled this)\<rparr>"
  by (simp add: operation_simps key_simps Let_def)

lemma reset_eq:
  "ResourceContextKey_reset this =
     this\<lparr>schemeKey := IContextKey_reset (schemeKey this),
          langIdKey := IContextKey_reset (IContextKey_reset (langIdKey this)),
          resourceKey := IContextKey_reset (resourceKey this),
          extensionKey := IContextKey_reset (extensionKey this),
          hasResource := IContextKey_reset (hasResource this)\<rparr>"
  by (simp add: operation_simps Let_def)

lemma listener_eq:
  "onDidChangeFileSystemProviderRegistrations_listener c this =
     (case IContextKey_get (resourceKey this) of
        Val R \<Rightarrow>
          this\<lparr>isfileSystemResource :=
                 IContextKey_set (Val (fileService_canHandleResource c R))
                   (isfileSystemResource this),
               isFileSystemResourceOrUntitled :=
                 IContextKey_set
                   (Val (fileService_canHandleResource c R \<or>
                         IContextKey_get (schemeKey this) = Val ''untitled''))
                   (isFileSystemResourceOrUntitled this),
               canHandleResource_calls := canHandleResource_calls this @ [R]\<rparr>
      | Undefined \<Rightarrow>
          this\<lparr>isfileSystemResource := IContextKey_set Undefined (isfileSystemResource this),
               isFileSystemResourceOrUntitled :=
                 IContextKey_set (Val (IContextKey_get (schemeKey this) = Val ''untitled''))
                   (isFileSystemResourceOrUntitled this)\<rparr>
      | Null \<Rightarrow>
          this\<lparr>isfileSystemResource := IContextKey_set Null (isfileSystemResource this),
               isFileSystemResourceOrUntitled :=
                 IContextKey_set (Val (IContextKey_get (schemeKey this) = Val ''untitled''))
                   (isFileSystemResourceOrUntitled this)\<rparr>)"
  by (cases "IContextKey_get (resourceKey this)")
     (simp_all add: operation_simps key_simps Let_def)

text \<open>No operation changes the default a fact was bound with.\<close>

lemma run_snoc: "run (operations @ [operation]) = perform operation (run operations)"
  by (simp add: run_def)

lemma declared_defaults:
  "defaultValue (resourceKey (run operations)) = Undefined \<and>
   defaultValue (schemeKey (run operations)) = Undefined \<and>
   defaultValue (filenameKey (run operations)) = Undefined \<and>
   defaultValue (langIdKey (run operations)) = Undefined \<and>
   defaultValue (extensionKey (run operations)) = Undefined \<and>
   defaultValue (hasResource (run operations)) = Val False \<and>
   defaultValue (isfileSystemResource (run operations)) = Val False \<and>
   defaultValue (isFileSystemResourceOrUntitled (run operations)) = Val False"
proof (induction operations rule: rev_induct)
  case Nil
  show ?case
    by (simp add: run_def ResourceContextKey_constructor_def bindTo_def descriptor_simps)
next
  case (snoc operation operations)
  show ?case
  proof (cases operation)
    case (Set c "value")
    with snoc show ?thesis
      by (cases "value") (simp_all add: run_snoc set_Val set_Undefined set_Null key_simps)
  next
    case Reset
    with snoc show ?thesis
      by (simp add: run_snoc reset_eq key_simps)
  next
    case (Notification c)
    with snoc show ?thesis
      by (simp add: run_snoc fire_onDidChangeFileSystemProviderRegistrations_def listener_eq
          key_simps split: nullable.split)
  next
    case Dispose
    with snoc show ?thesis
      by (simp add: run_snoc dispose_def)
  qed
qed

subsection \<open>Invariant I2 and the operations that keep it\<close>

lemma I2_constructor: "I2 ResourceContextKey_constructor"
  by (simp add: I2_def ResourceContextKey_constructor_def key_simps descriptor_simps)

lemma I2_set: "I2 (ResourceContextKey_set c value this)"
  by (cases "value") (simp_all add: I2_def set_Val set_Undefined set_Null)

lemma I2_notification:
  "I2 this \<Longrightarrow> I2 (fire_onDidChangeFileSystemProviderRegistrations c this)"
  by (simp add: I2_def fire_onDidChangeFileSystemProviderRegistrations_def listener_eq
      split: nullable.split)

lemma I2_dispose: "I2 this \<Longrightarrow> I2 (dispose this)"
  by (simp add: I2_def dispose_def)

text \<open>So I2 holds as long as \<open>reset\<close> is not called.\<close>

lemma I2_without_reset: "Reset \<notin> set operations \<Longrightarrow> I2 (run operations)"
proof (induction operations rule: rev_induct)
  case Nil
  show ?case
    by (simp add: run_def I2_constructor)
next
  case (snoc operation operations)
  then show ?case
    by (cases operation) (simp_all add: run_snoc I2_set I2_notification I2_dispose)
qed

subsection \<open>The claims\<close>

text \<open>
  C1. For every resource \<open>R\<close>, after \<open>set(R)\<close>: \<open>get()\<close> returns \<open>R\<close>, the scheme fact is
  \<open>R.scheme\<close>, the filename fact is the basename and the extension fact the extension
  name of the path of \<open>R\<close>, \<open>hasResource\<close> is true, and \<open>isFileSystemResourceOrUntitled\<close>
  is the disjunction of \<open>isFileSystemResource\<close> and \<open>scheme == "untitled"\<close>. The resource of
  the spec has one path, "a filesystem-style path": it is \<open>fsPath\<close> here. The state before
  the call is arbitrary.
\<close>

theorem set_resource_derives_all_facts:
  "let this' = ResourceContextKey_set c (Val R) this in
     ResourceContextKey_get this' = Val R \<and>
     IContextKey_get (schemeKey this') = Val (scheme R) \<and>
     IContextKey_get (filenameKey this') = Val (paths_basename c (fsPath R)) \<and>
     IContextKey_get (extensionKey this') = Val (paths_extname c (fsPath R)) \<and>
     IContextKey_get (hasResource this') = Val True \<and>
     IContextKey_get (isfileSystemResource this') = Val (fileService_canHandleResource c R) \<and>
     IContextKey_get (isFileSystemResourceOrUntitled this') =
       Val (fileService_canHandleResource c R \<or> scheme R = ''untitled'') \<and>
     I2 this'"
  by (simp add: Let_def I2_def set_Val ResourceContextKey_get_def)

text \<open>C1 at a file resource, set on a freshly constructed instance.\<close>

theorem set_resource_derives_all_facts_witness:
  "ResourceContextKey_get
     (ResourceContextKey_set example_collaborators (Val example_file)
        ResourceContextKey_constructor) = Val example_file \<and>
   IContextKey_get (schemeKey
     (ResourceContextKey_set example_collaborators (Val example_file)
        ResourceContextKey_constructor)) = Val ''file'' \<and>
   IContextKey_get (filenameKey
     (ResourceContextKey_set example_collaborators (Val example_file)
        ResourceContextKey_constructor)) = Val ''b.txt'' \<and>
   IContextKey_get (extensionKey
     (ResourceContextKey_set example_collaborators (Val example_file)
        ResourceContextKey_constructor)) = Val ''.txt'' \<and>
   IContextKey_get (hasResource
     (ResourceContextKey_set example_collaborators (Val example_file)
        ResourceContextKey_constructor)) = Val True \<and>
   IContextKey_get (isFileSystemResourceOrUntitled
     (ResourceContextKey_set example_collaborators (Val example_file)
        ResourceContextKey_constructor)) = Val True"
  using set_resource_derives_all_facts
    [of example_collaborators example_file ResourceContextKey_constructor]
  by (simp add: Let_def example_simps)

text \<open>
  C2 (fails on the code). Invariant I2 is to hold after every sequence of \<open>set\<close>,
  \<open>reset\<close> and notifications. The constructor establishes it and \<open>set\<close> and the
  listener re-establish it (\<open>I2_without_reset\<close>), but \<open>reset\<close> clears the scheme fact and leaves \<open>isFileSystemResourceOrUntitled\<close> as it
  was: after \<open>set\<close> of an untitled resource and \<open>reset\<close>, the stored
  \<open>isFileSystemResourceOrUntitled\<close> is true although \<open>isFileSystemResource\<close> is false and
  the scheme fact is absent.
\<close>

theorem reset_breaks_I2:
  "IContextKey_get (isFileSystemResourceOrUntitled
      (run [Set example_collaborators (Val example_untitled), Reset])) = Val True \<and>
   IContextKey_get (isfileSystemResource
      (run [Set example_collaborators (Val example_untitled), Reset])) = Val False \<and>
   IContextKey_get (schemeKey
      (run [Set example_collaborators (Val example_untitled), Reset])) = Undefined \<and>
   \<not> I2 (run [Set example_collaborators (Val example_untitled), Reset])"
  by (simp add: run_def I2_def reset_eq set_Val key_simps descriptor_simps
      ResourceContextKey_constructor_def example_simps)

text \<open>
  C3. While a resource \<open>R\<close> is held, a capability-change notification recomputes
  \<open>isFileSystemResource\<close> (the file service's current answer for \<open>R\<close>) and
  \<open>isFileSystemResourceOrUntitled\<close> (that answer, or the stored scheme being
  \<open>untitled\<close>), and leaves the facts resource, scheme, filename, langId and extension,
  and \<open>hasResource\<close> too, as they were: same value, and not written.
\<close>

theorem notification_recomputes_two_facts:
  assumes "listening this" and "ResourceContextKey_get this = Val R"
  shows "let this' = fire_onDidChangeFileSystemProviderRegistrations c this in
     IContextKey_get (isfileSystemResource this') = Val (fileService_canHandleResource c R) \<and>
     IContextKey_get (isFileSystemResourceOrUntitled this') =
       Val (fileService_canHandleResource c R \<or>
            IContextKey_get (schemeKey this) = Val ''untitled'') \<and>
     resourceKey this' = resourceKey this \<and>
     schemeKey this' = schemeKey this \<and>
     filenameKey this' = filenameKey this \<and>
     langIdKey this' = langIdKey this \<and>
     extensionKey this' = extensionKey this \<and>
     hasResource this' = hasResource this"
  using assms
  by (simp add: Let_def fire_onDidChangeFileSystemProviderRegistrations_def listener_eq
      ResourceContextKey_get_def)

text \<open>
  C3 where the answer flips: a resource is set before the provider of its scheme has
  registered, then the provider registers and the notification arrives.
\<close>

theorem notification_recomputes_two_facts_witness:
  "listening (ResourceContextKey_set example_collaborators (Val example_memfs)
      ResourceContextKey_constructor) \<and>
   ResourceContextKey_get (ResourceContextKey_set example_collaborators (Val example_memfs)
      ResourceContextKey_constructor) = Val example_memfs \<and>
   IContextKey_get (isfileSystemResource
     (ResourceContextKey_set example_collaborators (Val example_memfs)
        ResourceContextKey_constructor)) = Val False \<and>
   IContextKey_get (isfileSystemResource
     (fire_onDidChangeFileSystemProviderRegistrations example_collaborators_later
       (ResourceContextKey_set example_collaborators (Val example_memfs)
          ResourceContextKey_constructor))) = Val True \<and>
   IContextKey_get (isFileSystemResourceOrUntitled
     (fire_onDidChangeFileSystemProviderRegistrations example_collaborators_later
       (ResourceContextKey_set example_collaborators (Val example_memfs)
          ResourceContextKey_constructor))) = Val True \<and>
   filenameKey
     (fire_onDidChangeFileSystemProviderRegistrations example_collaborators_later
       (ResourceContextKey_set example_collaborators (Val example_memfs)
          ResourceContextKey_constructor)) =
   filenameKey (ResourceContextKey_set example_collaborators (Val example_memfs)
      ResourceContextKey_constructor)"
proof -
  have held: "ResourceContextKey_get (ResourceContextKey_set example_collaborators
      (Val example_memfs) ResourceContextKey_constructor) = Val example_memfs"
    by (simp add: set_Val ResourceContextKey_get_def)
  have live: "listening (ResourceContextKey_set example_collaborators (Val example_memfs)
      ResourceContextKey_constructor)"
    by (simp add: set_Val ResourceContextKey_constructor_def)
  have before: "IContextKey_get (isfileSystemResource
     (ResourceContextKey_set example_collaborators (Val example_memfs)
        ResourceContextKey_constructor)) = Val False"
    by (simp add: set_Val example_simps)
  show ?thesis
    using notification_recomputes_two_facts [OF live held, of example_collaborators_later]
      held live before
    by (simp add: Let_def example_simps)
qed

text \<open>
  C4 (fails on the code). \<open>reset()\<close> is to restore all the facts that \<open>set\<close> alters to
  their declared defaults, so that the facts are as the constructor left them. A freshly
  constructed instance has every fact at its default; after \<open>set\<close> of a file resource
  and \<open>reset()\<close>, the facts filename, \<open>isFileSystemResource\<close> and
  \<open>isFileSystemResourceOrUntitled\<close> still hold what \<open>set\<close> wrote.
\<close>

theorem reset_leaves_three_facts_stale:
  "at_declared_defaults (run []) \<and>
   \<not> at_declared_defaults (run [Set example_collaborators (Val example_file), Reset]) \<and>
   IContextKey_get (filenameKey
      (run [Set example_collaborators (Val example_file), Reset])) = Val ''b.txt'' \<and>
   IContextKey_get (isfileSystemResource
      (run [Set example_collaborators (Val example_file), Reset])) = Val True \<and>
   IContextKey_get (isFileSystemResourceOrUntitled
      (run [Set example_collaborators (Val example_file), Reset])) = Val True"
  by (simp add: run_def at_declared_defaults_def reset_eq set_Val key_simps descriptor_simps
      ResourceContextKey_constructor_def example_simps)

text \<open>
  C5. For every resource \<open>R\<close>, after \<open>set(R)\<close> and then \<open>reset()\<close> the facts scheme,
  langId, resource, extension and \<open>hasResource\<close> are at their declared defaults, while
  filename, \<open>isFileSystemResource\<close> and \<open>isFileSystemResourceOrUntitled\<close> are as they
  were just before the \<open>reset\<close> (not written, and so still what \<open>set(R)\<close> derived),
  whatever happened to the instance before.
\<close>

theorem reset_after_set_keeps_three_facts:
  "let before = ResourceContextKey_set c (Val R) (run operations);
       after = ResourceContextKey_reset before in
     IContextKey_get (schemeKey after) = rawDefaultValue Scheme \<and>
     IContextKey_get (langIdKey after) = rawDefaultValue LangId \<and>
     IContextKey_get (resourceKey after) = rawDefaultValue Resource \<and>
     IContextKey_get (extensionKey after) = rawDefaultValue Extension \<and>
     IContextKey_get (hasResource after) = rawDefaultValue HasResource \<and>
     filenameKey after = filenameKey before \<and>
     isfileSystemResource after = isfileSystemResource before \<and>
     isFileSystemResourceOrUntitled after = isFileSystemResourceOrUntitled before \<and>
     IContextKey_get (filenameKey after) = Val (paths_basename c (fsPath R)) \<and>
     IContextKey_get (isfileSystemResource after) = Val (fileService_canHandleResource c R) \<and>
     IContextKey_get (isFileSystemResourceOrUntitled after) =
       Val (fileService_canHandleResource c R \<or> scheme R = ''untitled'')"
  using declared_defaults [of operations]
  by (simp add: Let_def reset_eq set_Val key_simps descriptor_simps)

text \<open>
  C5 at an untitled resource, set on an instance that held a file resource before, and
  reset.
\<close>

theorem reset_after_set_keeps_three_facts_witness:
  "IContextKey_get (schemeKey (ResourceContextKey_reset
      (ResourceContextKey_set example_collaborators (Val example_untitled)
         (run [Set example_collaborators (Val example_file)])))) = Undefined \<and>
   IContextKey_get (hasResource (ResourceContextKey_reset
      (ResourceContextKey_set example_collaborators (Val example_untitled)
         (run [Set example_collaborators (Val example_file)])))) = Val False \<and>
   IContextKey_get (filenameKey (ResourceContextKey_reset
      (ResourceContextKey_set example_collaborators (Val example_untitled)
         (run [Set example_collaborators (Val example_file)])))) = Val ''Untitled-1'' \<and>
   IContextKey_get (isfileSystemResource (ResourceContextKey_reset
      (ResourceContextKey_set example_collaborators (Val example_untitled)
         (run [Set example_collaborators (Val example_file)])))) = Val False \<and>
   IContextKey_get (isFileSystemResourceOrUntitled (ResourceContextKey_reset
      (ResourceContextKey_set example_collaborators (Val example_untitled)
         (run [Set example_collaborators (Val example_file)])))) = Val True"
  using reset_after_set_keeps_three_facts
    [of example_collaborators example_untitled "[Set example_collaborators (Val example_file)]"]
  by (simp add: Let_def descriptor_simps example_simps set_Val reset_eq)

text \<open>
  C6. \<open>set\<close> with an absent resource (\<^verbatim>\<open>undefined\<close> or \<^verbatim>\<open>null\<close>) raises no error (no
  collaborator is called, and the operation has a result) and leaves the facts resource,
  scheme, filename, langId and extension absent and \<open>hasResource\<close> false.
\<close>

theorem set_absent_clears_facts:
  assumes "is_absent value"
  shows "let this' = ResourceContextKey_set c value this in
     is_absent (ResourceContextKey_get this') \<and>
     is_absent (IContextKey_get (schemeKey this')) \<and>
     is_absent (IContextKey_get (filenameKey this')) \<and>
     is_absent (IContextKey_get (langIdKey this')) \<and>
     is_absent (IContextKey_get (extensionKey this')) \<and>
     IContextKey_get (hasResource this') = Val False"
  using assms
  by (cases "value") (simp_all add: Let_def set_Undefined set_Null ResourceContextKey_get_def)

text \<open>C6 for \<^verbatim>\<open>undefined\<close>, on an instance that holds a file resource.\<close>

theorem set_absent_clears_facts_witness:
  "is_absent (Undefined :: URI nullable) \<and>
   ResourceContextKey_get (ResourceContextKey_set example_collaborators Undefined
     (ResourceContextKey_set example_collaborators (Val example_file)
        ResourceContextKey_constructor)) = Undefined \<and>
   IContextKey_get (filenameKey (ResourceContextKey_set example_collaborators Undefined
     (ResourceContextKey_set example_collaborators (Val example_file)
        ResourceContextKey_constructor))) = Undefined \<and>
   IContextKey_get (hasResource (ResourceContextKey_set example_collaborators Undefined
     (ResourceContextKey_set example_collaborators (Val example_file)
        ResourceContextKey_constructor))) = Val False"
proof -
  have absent: "is_absent (Undefined :: URI nullable)"
    by simp
  show ?thesis
    using set_absent_clears_facts [OF absent, of example_collaborators
        "ResourceContextKey_set example_collaborators (Val example_file)
           ResourceContextKey_constructor"]
    by (simp add: Let_def set_Undefined ResourceContextKey_get_def)
qed

text \<open>
  C7. Once the instance is disposed, a capability-change notification, and any number of
  them, leaves the instance as disposal left it: no fact is written (the write counts
  are unchanged too) and the file service is not asked.
\<close>

theorem no_write_after_dispose:
  "fire_onDidChangeFileSystemProviderRegistrations c (dispose this) = dispose this \<and>
   foldl (\<lambda>s c'. fire_onDidChangeFileSystemProviderRegistrations c' s) (dispose this) cs =
     dispose this"
proof
  show one: "fire_onDidChangeFileSystemProviderRegistrations c (dispose this) = dispose this"
    for c
    by (simp add: fire_onDidChangeFileSystemProviderRegistrations_def dispose_def)
  show "foldl (\<lambda>s c'. fire_onDidChangeFileSystemProviderRegistrations c' s) (dispose this) cs =
      dispose this"
    by (induction cs) (simp_all add: one)
qed

text \<open>
  C7 on an instance that holds a resource whose provider registers after the disposal:
  the notification does not write \<open>isFileSystemResource\<close>, which stays false.
\<close>

theorem no_write_after_dispose_witness:
  "IContextKey_get (isfileSystemResource
     (fire_onDidChangeFileSystemProviderRegistrations example_collaborators_later
        (dispose (ResourceContextKey_set example_collaborators (Val example_memfs)
           ResourceContextKey_constructor)))) = Val False \<and>
   writes (isfileSystemResource
     (fire_onDidChangeFileSystemProviderRegistrations example_collaborators_later
        (dispose (ResourceContextKey_set example_collaborators (Val example_memfs)
           ResourceContextKey_constructor)))) = 1"
  using no_write_after_dispose [of example_collaborators_later
      "ResourceContextKey_set example_collaborators (Val example_memfs)
         ResourceContextKey_constructor" "[]"]
  by (simp add: dispose_def set_Val key_simps ResourceContextKey_constructor_def
      example_simps)

text \<open>
  C10. After \<open>set\<close> with an absent resource the file service has not been consulted,
  \<open>isFileSystemResource\<close> holds the absent value (which is not its declared default,
  false), and \<open>isFileSystemResourceOrUntitled\<close> is false.
\<close>

theorem set_absent_skips_file_service:
  assumes "is_absent value"
  shows "let this' = ResourceContextKey_set c value this in
     canHandleResource_calls this' = canHandleResource_calls this \<and>
     is_absent (IContextKey_get (isfileSystemResource this')) \<and>
     IContextKey_get (isfileSystemResource this') \<noteq> rawDefaultValue IsFileSystemResource \<and>
     IContextKey_get (isFileSystemResourceOrUntitled this') = Val False"
  using assms
  by (cases "value") (simp_all add: Let_def set_Undefined set_Null descriptor_simps)

text \<open>C10 for \<^verbatim>\<open>null\<close>, on a freshly constructed instance.\<close>

theorem set_absent_skips_file_service_witness:
  "is_absent (Null :: URI nullable) \<and>
   canHandleResource_calls
     (ResourceContextKey_set example_collaborators Null ResourceContextKey_constructor) = [] \<and>
   IContextKey_get (isfileSystemResource
     (ResourceContextKey_set example_collaborators Null ResourceContextKey_constructor)) = Null \<and>
   IContextKey_get (isFileSystemResourceOrUntitled
     (ResourceContextKey_set example_collaborators Null ResourceContextKey_constructor)) =
     Val False"
proof -
  have absent: "is_absent (Null :: URI nullable)"
    by simp
  show ?thesis
    using set_absent_skips_file_service
      [OF absent, of example_collaborators ResourceContextKey_constructor]
    by (simp add: Let_def set_Null ResourceContextKey_constructor_def)
qed

section \<open>Properties of \<open>parseMetaData\<close>\<close>

subsection \<open>The string operations on a decomposed string\<close>

lemma indexOf_absent: "c \<notin> set s \<Longrightarrow> indexOf s c = - 1"
  by (induction s) auto

lemma indexOf_first: "c \<notin> set pre \<Longrightarrow> indexOf (pre @ c # rest) c = int (length pre)"
  by (induction pre) (auto simp: Let_def)

lemma lastIndexOf_absent: "c \<notin> set s \<Longrightarrow> lastIndexOf s c = - 1"
  by (induction s) auto

lemma lastIndexOf_last:
  "c \<notin> set post \<Longrightarrow> lastIndexOf (pre @ c # post) c = int (length pre)"
  by (induction pre) (simp_all add: Let_def lastIndexOf_absent)

lemma substring_prefix: "substring (pre @ rest) 0 (int (length pre)) = pre"
  by (simp add: substring_def Let_def)

lemma substring_none: "substring s 0 (- 1) = []"
  by (simp add: substring_def Let_def)

text \<open>With one \<open>;\<close> only, \<open>start\<close> is one more than \<open>end\<close>, and the two are swapped.\<close>

lemma substring_swapped:
  "substring (pre @ c # post) (int (length pre) + 1) (int (length pre)) = [c]"
  by (simp add: substring_def Let_def min_def max_def)

lemma substring_middle:
  "substring (pre @ c # mid @ rest) (int (length pre) + 1)
     (int (length pre) + 1 + int (length mid)) = mid"
proof -
  have "nat (int (length pre) + 1) = Suc (length pre)"
    by simp
  then show ?thesis
    by (simp add: substring_def Let_def min_def max_def)
qed

lemma before_first_decomposed: "c \<notin> set pre \<Longrightarrow> before_first c (pre @ c # rest) = pre"
  by (induction pre) (auto simp: before_first_def)

lemma before_first_absent: "c \<notin> set s \<Longrightarrow> before_first c s = s"
  by (induction s) (auto simp: before_first_def)

lemma after_first_decomposed: "c \<notin> set pre \<Longrightarrow> after_first c (pre @ c # rest) = rest"
  by (induction pre) (auto simp: after_first_def)

lemma after_first_absent: "c \<notin> set s \<Longrightarrow> after_first c s = []"
  by (induction s) (auto simp: after_first_def)

lemma before_last_decomposed: "c \<notin> set post \<Longrightarrow> before_last c (mid @ c # post) = mid"
  using after_first_decomposed [of c "rev post" "rev mid"] by (simp add: before_last_def)

lemma split_absent: "c \<notin> set s \<Longrightarrow> split c s = [s]"
  by (induction s) auto

lemma split_decomposed: "c \<notin> set pre \<Longrightarrow> split c (pre @ c # rest) = pre # split c rest"
  by (induction pre) auto

lemma split_head: "\<exists>more. split c s = before_first c s # more"
  by (induction s) (auto simp: before_first_def split: list.splits)

lemma split_append: "split c (xs @ c # ys) = split c xs @ split c ys"
proof (induction xs)
  case Nil
  show ?case by simp
next
  case (Cons x xs)
  obtain more where "split c xs = before_first c xs # more"
    using split_head by blast
  with Cons show ?case by simp
qed

text \<open>A string has no \<open>c\<close>, or one, or a first and a last one.\<close>

lemma occurrences_cases:
  fixes p :: string
  obtains (none) "c \<notin> set p"
  | (one) pre post where "p = pre @ c # post" "c \<notin> set pre" "c \<notin> set post"
  | (more) pre mid post where
      "p = pre @ c # mid @ c # post" "c \<notin> set pre" "c \<notin> set post"
proof (cases "c \<in> set p")
  case False
  then show ?thesis by (rule none)
next
  case True
  then obtain pre rest where p: "p = pre @ c # rest" and pre: "c \<notin> set pre"
    by (meson split_list_first)
  show ?thesis
  proof (cases "c \<in> set rest")
    case False
    with p pre show ?thesis by (rule one)
  next
    case True
    then obtain mid post where "rest = mid @ c # post" and "c \<notin> set post"
      by (meson split_list_last)
    with p pre show ?thesis by (auto intro: more)
  qed
qed

subsection \<open>The callback\<close>

lemma forEach_property_amended: "forEach_property m token = amended_token m token"
proof (cases "CHR '':'' \<in> set token")
  case False
  then show ?thesis
    by (simp add: forEach_property_def amended_token_def split_absent element_def)
next
  case True
  then obtain k rest where token: "token = k @ CHR '':'' # rest" and k: "CHR '':'' \<notin> set k"
    by (meson split_list_first)
  obtain more where rest: "split CHR '':'' rest = before_first CHR '':'' rest # more"
    using split_head by blast
  show ?thesis
    using k
    by (simp add: token forEach_property_def amended_token_def split_decomposed rest element_def
        before_first_decomposed after_first_decomposed)
qed

lemma amended_token_eq: "amended_token = forEach_property"
  by (intro ext) (simp add: forEach_property_amended)

lemma forEach_property_empty: "forEach_property m [] = m"
  by (simp add: forEach_property_def element_def)

lemma forEach_property_skips:
  assumes "missing_key_or_value token"
  shows "forEach_property m token = m"
proof (cases "CHR '':'' \<in> set token")
  case False
  then show ?thesis
    by (simp add: forEach_property_amended amended_token_def)
next
  case True
  then obtain k rest where token: "token = k @ CHR '':'' # rest" and k: "CHR '':'' \<notin> set k"
    by (meson split_list_first)
  from assms k have "k = [] \<or> rest = []"
    by (simp add: missing_key_or_value_def token before_first_decomposed
        after_first_decomposed)
  with k show ?thesis
    by (auto simp: forEach_property_amended amended_token_def token before_first_decomposed
        after_first_decomposed before_first_def)
qed

subsection \<open>The function on a decomposed path\<close>

lemma parseMetaData_no_semicolon:
  assumes "CHR '';'' \<notin> set (path dataUri)"
  shows "parseMetaData dataUri = Map.empty"
  using assms
  by (simp add: parseMetaData_def Let_def indexOf_absent lastIndexOf_absent substring_none
      forEach_property_empty)

lemma parseMetaData_one_semicolon:
  assumes "path dataUri = pre @ CHR '';'' # post"
    and "CHR '';'' \<notin> set pre" and "CHR '';'' \<notin> set post"
  shows "parseMetaData dataUri = (if pre \<noteq> [] then [META_DATA_MIME \<mapsto> pre] else Map.empty)"
  using assms
  by (simp add: parseMetaData_def Let_def indexOf_first lastIndexOf_last substring_swapped
      substring_prefix forEach_property_empty)

lemma parseMetaData_more_semicolons:
  assumes "path dataUri = pre @ CHR '';'' # mid @ CHR '';'' # post"
    and "CHR '';'' \<notin> set pre" and "CHR '';'' \<notin> set post"
  shows "parseMetaData dataUri =
    (let metadata = foldl forEach_property Map.empty (split CHR '';'' mid)
     in if pre \<noteq> [] then metadata(META_DATA_MIME \<mapsto> pre) else metadata)"
proof -
  have last: "lastIndexOf (path dataUri) CHR '';'' = int (length pre) + 1 + int (length mid)"
    using lastIndexOf_last [of "CHR '';''" post "pre @ CHR '';'' # mid"] assms by simp
  have first: "indexOf (path dataUri) CHR '';'' = int (length pre)"
    using assms by (simp add: indexOf_first)
  have meta: "substring (path dataUri) (int (length pre) + 1)
      (int (length pre) + 1 + int (length mid)) = mid"
    using assms(1) substring_middle [of pre "CHR '';''" mid "CHR '';'' # post"] by simp
  have mime: "substring (path dataUri) 0 (int (length pre)) = pre"
    using assms(1) substring_prefix [of pre "CHR '';'' # mid @ CHR '';'' # post"] by simp
  show ?thesis
    by (simp add: parseMetaData_def Let_def first last meta mime)
qed

lemma reference_no_semicolon:
  assumes "CHR '';'' \<notin> set p" and "step Map.empty [] = Map.empty"
  shows "reference_algorithm step p = Map.empty"
  using assms
  by (simp add: reference_algorithm_def Let_def between_first_and_last_def spec_mime_def)

lemma reference_one_semicolon:
  assumes "p = pre @ CHR '';'' # post" and "CHR '';'' \<notin> set pre" and "CHR '';'' \<notin> set post"
    and "step Map.empty [] = Map.empty"
  shows "reference_algorithm step p = (if pre \<noteq> [] then [''mime'' \<mapsto> pre] else Map.empty)"
  using assms
  by (simp add: reference_algorithm_def Let_def between_first_and_last_def spec_mime_def
      after_first_decomposed before_first_decomposed)

lemma reference_more_semicolons:
  assumes "p = pre @ CHR '';'' # mid @ CHR '';'' # post"
    and "CHR '';'' \<notin> set pre" and "CHR '';'' \<notin> set post"
  shows "reference_algorithm step p =
    (let metadata = foldl step Map.empty (split CHR '';'' mid)
     in if pre \<noteq> [] then metadata(''mime'' \<mapsto> pre) else metadata)"
  using assms
  by (simp add: reference_algorithm_def Let_def between_first_and_last_def spec_mime_def
      after_first_decomposed before_first_decomposed before_last_decomposed)

lemma foldl_skips:
  assumes "\<And>m. step m token = m"
  shows "foldl step m (xs @ token # ys) = foldl step m (xs @ ys)"
  by (simp add: assms)

subsection \<open>The claims\<close>

text \<open>
  C8, as amended. For every data-URI path, \<open>parseMetaData\<close> returns the mapping of the
  three-step algorithm in which the key of a token is what stands before its first \<open>:\<close>
  and the value what stands between its first and its second \<open>:\<close> (up to the end of the
  token when it has one \<open>:\<close> only): the substring strictly between the first and the
  last \<open>;\<close> is split on \<open>;\<close>, a token whose key and value are both non-empty is
  inserted, later keys overwriting earlier ones, and the non-empty substring before the
  first \<open>;\<close> is added under \<open>mime\<close>.
\<close>

theorem parseMetaData_is_amended_algorithm:
  "parseMetaData dataUri = parseMetaData_amended (path dataUri)"
proof (cases "path dataUri" rule: occurrences_cases [where c = "CHR '';''"])
  case none
  then show ?thesis
    by (simp add: parseMetaData_amended_def parseMetaData_no_semicolon reference_no_semicolon
        amended_token_eq forEach_property_empty)
next
  case (one pre post)
  then show ?thesis
    by (simp add: parseMetaData_amended_def parseMetaData_one_semicolon
        reference_one_semicolon amended_token_eq forEach_property_empty META_DATA_MIME_def)
next
  case (more pre mid post)
  then show ?thesis
    by (simp add: parseMetaData_amended_def parseMetaData_more_semicolons
        reference_more_semicolons amended_token_eq META_DATA_MIME_def Let_def)
qed

text \<open>C8 at the data URI of the spec's example.\<close>

theorem parseMetaData_is_amended_algorithm_witness:
  "parseMetaData (example_data
      ''image/png;size:2313;label:SomeLabel;description:SomeDescription;base64,AAA'') =
   [''size'' \<mapsto> ''2313'', ''label'' \<mapsto> ''SomeLabel'', ''description'' \<mapsto> ''SomeDescription'',
    ''mime'' \<mapsto> ''image/png'']"
  using parseMetaData_is_amended_algorithm [of "example_data
      ''image/png;size:2313;label:SomeLabel;description:SomeDescription;base64,AAA''"]
  by (simp add: example_data_def parseMetaData_amended_def reference_algorithm_def
      between_first_and_last_def after_first_def before_last_def before_first_def
      spec_mime_def amended_token_def Let_def)

text \<open>
  C8 as the spec words it, with each token split once on \<open>:\<close>, fails where a value
  contains a \<open>:\<close>: of the token \<open>time:12:30\<close> the code keeps \<open>12\<close>, splitting once
  keeps \<open>12:30\<close>.
\<close>

theorem parseMetaData_split_once_counterexample:
  "parseMetaData (example_data ''text/plain;time:12:30;base64,AAA'') ''time'' = Some ''12'' \<and>
   parseMetaData_spec ''text/plain;time:12:30;base64,AAA'' ''time'' = Some ''12:30'' \<and>
   parseMetaData (example_data ''text/plain;time:12:30;base64,AAA'') \<noteq>
     parseMetaData_spec ''text/plain;time:12:30;base64,AAA''"
proof -
  have code: "parseMetaData (example_data ''text/plain;time:12:30;base64,AAA'') ''time'' =
      Some ''12''"
    using parseMetaData_more_semicolons
      [of "example_data ''text/plain;time:12:30;base64,AAA''" "''text/plain''"
        "''time:12:30''" "''base64,AAA''"]
    by (simp add: example_data_def Let_def forEach_property_def element_def META_DATA_MIME_def)
  have spec: "parseMetaData_spec ''text/plain;time:12:30;base64,AAA'' ''time'' = Some ''12:30''"
    using reference_more_semicolons
      [of "''text/plain;time:12:30;base64,AAA''" "''text/plain''"
        "''time:12:30''" "''base64,AAA''" spec_token]
    by (simp add: parseMetaData_spec_def Let_def spec_token_def before_first_def after_first_def)
  from code spec show ?thesis
    by auto
qed

text \<open>
  C9. \<open>parseMetaData\<close> raises no error on any path (it has a result for every path): a
  path without \<open>;\<close> yields the empty mapping, with no \<open>mime\<close> entry; the callback leaves
  the mapping as it is on a token with a missing key or value, which every token
  without \<open>:\<close> is; and such a token between two others can be taken out of the path
  without changing the result.
\<close>

theorem parseMetaData_tolerates_malformed_input:
  "(CHR '';'' \<notin> set (path dataUri) \<longrightarrow> parseMetaData dataUri = Map.empty) \<and>
   (missing_key_or_value token \<longrightarrow> forEach_property metadata token = metadata) \<and>
   (CHR '':'' \<notin> set token \<longrightarrow> missing_key_or_value token) \<and>
   (missing_key_or_value token \<and> CHR '';'' \<notin> set token \<and>
    CHR '';'' \<notin> set pre \<and> CHR '';'' \<notin> set post \<and>
    path longUri =
      pre @ CHR '';'' # before @ CHR '';'' # token @ CHR '';'' # after @ CHR '';'' # post \<and>
    path shortUri = pre @ CHR '';'' # before @ CHR '';'' # after @ CHR '';'' # post \<longrightarrow>
      parseMetaData longUri = parseMetaData shortUri)"
proof (intro conjI impI)
  assume "CHR '';'' \<notin> set (path dataUri)"
  then show "parseMetaData dataUri = Map.empty"
    by (rule parseMetaData_no_semicolon)
next
  assume "missing_key_or_value token"
  then show "forEach_property metadata token = metadata"
    by (rule forEach_property_skips)
next
  assume "CHR '':'' \<notin> set token"
  then show "missing_key_or_value token"
    by (simp add: missing_key_or_value_def after_first_absent)
next
  let ?c = "CHR '';''"
  assume a: "missing_key_or_value token \<and> ?c \<notin> set token \<and> ?c \<notin> set pre \<and> ?c \<notin> set post \<and>
    path longUri = pre @ ?c # before @ ?c # token @ ?c # after @ ?c # post \<and>
    path shortUri = pre @ ?c # before @ ?c # after @ ?c # post"
  then have missing: "missing_key_or_value token" and token: "?c \<notin> set token"
    and pre: "?c \<notin> set pre" and post: "?c \<notin> set post"
    and long: "path longUri = pre @ ?c # (before @ ?c # token @ ?c # after) @ ?c # post"
    and short: "path shortUri = pre @ ?c # (before @ ?c # after) @ ?c # post"
    by simp_all
  have with_token: "split ?c (before @ ?c # token @ ?c # after) =
      split ?c before @ token # split ?c after"
    using token by (simp add: split_append split_absent)
  have without: "split ?c (before @ ?c # after) = split ?c before @ split ?c after"
    by (simp add: split_append)
  have skip: "foldl forEach_property Map.empty (split ?c before @ token # split ?c after) =
      foldl forEach_property Map.empty (split ?c before @ split ?c after)"
    using missing by (intro foldl_skips forEach_property_skips)
  show "parseMetaData longUri = parseMetaData shortUri"
    by (simp only: parseMetaData_more_semicolons [OF long pre post]
        parseMetaData_more_semicolons [OF short pre post] with_token without skip)
qed

text \<open>
  C9 at a path without \<open>;\<close>, at a token without \<open>:\<close>, and at a path with such a token
  between two well-formed ones.
\<close>

theorem parseMetaData_tolerates_malformed_input_witness:
  "parseMetaData (example_data ''no metadata here'') = Map.empty \<and>
   forEach_property [''size'' \<mapsto> ''2313''] ''label'' = [''size'' \<mapsto> ''2313''] \<and>
   parseMetaData (example_data ''image/png;size:2313;label;description:d;base64,AAA'') =
   parseMetaData (example_data ''image/png;size:2313;description:d;base64,AAA'')"
proof -
  have no_colon: "CHR '':'' \<notin> set ''label''" and no_semicolon: "CHR '';'' \<notin> set ''label''"
    and pre: "CHR '';'' \<notin> set ''image/png''" and post: "CHR '';'' \<notin> set ''base64,AAA''"
    and path: "CHR '';'' \<notin> set (path (example_data ''no metadata here''))"
    by (simp_all add: example_data_def)
  show ?thesis
    using parseMetaData_tolerates_malformed_input
      [where dataUri = "example_data ''no metadata here''" and token = "''label''"
        and metadata = "[''size'' \<mapsto> ''2313'']" and pre = "''image/png''"
        and post = "''base64,AAA''" and before = "''size:2313''" and after = "''description:d''"
        and longUri = "example_data ''image/png;size:2313;label;description:d;base64,AAA''"
        and shortUri = "example_data ''image/png;size:2313;description:d;base64,AAA''"]
      no_colon no_semicolon pre post path
    by (simp add: example_data_def missing_key_or_value_def before_first_def after_first_def)
qed

end
